theory Spec2Isabelle
  imports Main "HOL-Library.Word"
begin

section \<open>KeyboardInterface: the per-client keyboard binding of the Wayland server\<close>

text \<open>
  A shallow embedding of \<^verbatim>\<open>src/server/keyboard_interface.cpp\<close>. The private
  class of the binding is a record; the calls the binding makes into libwayland, Qt and
  the operating system are primitives acting on a record \<open>world\<close>, which keeps the
  calls in the order they were made (\<open>trace\<close>) together with the little state of the
  collaborators the binding depends on: the wire objects that exist, the open file
  descriptors and the live signal connections.
\<close>

subsection \<open>Data\<close>

type_synonym quint32 = "32 word"

type_synonym wl_client = nat

text \<open>A wire object: the client it belongs to, its negotiated version and its id.\<close>

datatype wl_resource =
  WlResource (resource_client: wl_client) (wl_resource_get_version: int) (resource_id: quint32)

text \<open>A surface, as far as the keyboard sees it: \<^verbatim>\<open>SurfaceInterface::resource()\<close>.\<close>

datatype SurfaceInterface = SurfaceInterface (surface_resource: wl_resource)

text \<open>The state of the seat that the binding reads through \<^verbatim>\<open>SeatInterface *seat\<close>.\<close>

record SeatInterface =
  isKeymapXkbCompatible :: bool
  keymapFileDescriptor :: int
  keymapSize :: quint32
  pressedKeys :: "quint32 list"
  timestamp :: quint32
  depressedModifiers :: quint32
  latchedModifiers :: quint32
  lockedModifiers :: quint32
  groupModifiers :: quint32
  lastModifiersSerial :: quint32

datatype keymap_format =
  WL_KEYBOARD_KEYMAP_FORMAT_NO_KEYMAP
| WL_KEYBOARD_KEYMAP_FORMAT_XKB_V1

datatype key_state =
  WL_KEYBOARD_KEY_STATE_RELEASED
| WL_KEYBOARD_KEY_STATE_PRESSED

text \<open>A \<^verbatim>\<open>QMetaObject::Connection\<close> is identified by a number.\<close>

type_synonym connection = nat

text \<open>
  \<^verbatim>\<open>KeyboardInterface::Private\<close>. A null pointer is \<open>None\<close>; a default
  constructed (invalid) connection handle is \<open>None\<close>.
\<close>

record Private =
  seat :: SeatInterface
  focusedSurface :: "SurfaceInterface option"
  destroyConnection :: "connection option"
  resource :: "wl_resource option"

text \<open>Every call that leaves the binding, with its arguments.\<close>

datatype action =
  WlResourceCreate wl_client int quint32
| WlResourcePostNoMemory wl_resource
| WlResourceSetImplementation wl_resource
| WlResourceDestroy wl_resource
| SendKeymap wl_resource keymap_format int quint32
| SendModifiers wl_resource quint32 quint32 quint32 quint32 quint32
| SendEnter wl_resource quint32 wl_resource "quint32 list"
| SendLeave wl_resource quint32 wl_resource
| SendKey wl_resource quint32 quint32 quint32 key_state
| SysOpen int
| SysClose int
| QtConnect connection SurfaceInterface
| QtDisconnect connection

record world =
  trace :: "action list"
  objects :: "wl_resource set"
  open_fds :: "int set"
  connections :: "(connection \<times> SurfaceInterface) list"
  next_connection :: connection

text \<open>
  What the two calls whose outcome the binding cannot determine return: whether
  \<^verbatim>\<open>wl_resource_create\<close> can allocate, and the descriptor (or -1) that
  \<^verbatim>\<open>open("/dev/null", O_RDONLY)\<close> yields.
\<close>

record os_results =
  allocation_succeeds :: bool
  open_result :: int

text \<open>
  A call that does not return normally: a failed \<^verbatim>\<open>Q_ASSERT\<close>, or a null wire
  object handed to libwayland. The world at the moment of the abort is kept, so that
  what had been sent by then can be read off.
\<close>

datatype error = AssertionFailed | NullDereference

text \<open>
  \<^verbatim>\<open>Q_ASSERT\<close> is Qt's macro. In a build with assertions a false condition
  aborts the program; with \<^verbatim>\<open>QT_NO_DEBUG\<close> defined the macro expands to nothing
  and the statement after it runs whatever the condition. Every function with an
  assertion takes the build as its first argument.
\<close>

datatype build = QT_DEBUG | QT_NO_DEBUG

definition Q_ASSERT_fails :: "build \<Rightarrow> bool \<Rightarrow> bool" where
  "Q_ASSERT_fails b cond = (b = QT_DEBUG \<and> \<not> cond)"

type_synonym 'a result = "(error \<times> world) + 'a"

subsection \<open>The primitives of the collaborators\<close>

definition emit :: "action \<Rightarrow> world \<Rightarrow> world" where
  "emit a w = w\<lparr>trace := trace w @ [a]\<rparr>"

text \<open>\<^verbatim>\<open>wl_resource_post_event\<close>: queues an event on a wire object.\<close>

definition wl_resource_post_event ::
  "wl_resource option \<Rightarrow> (wl_resource \<Rightarrow> action) \<Rightarrow> world \<Rightarrow> world result" where
  "wl_resource_post_event r ev w =
     (case r of None \<Rightarrow> Inl (NullDereference, w) | Some h \<Rightarrow> Inr (emit (ev h) w))"

definition wl_keyboard_send_keymap ::
  "wl_resource option \<Rightarrow> keymap_format \<Rightarrow> int \<Rightarrow> quint32 \<Rightarrow> world \<Rightarrow> world result" where
  "wl_keyboard_send_keymap r format fd size' =
     wl_resource_post_event r (\<lambda>h. SendKeymap h format fd size')"

definition wl_keyboard_send_modifiers ::
  "wl_resource option \<Rightarrow> quint32 \<Rightarrow> quint32 \<Rightarrow> quint32 \<Rightarrow> quint32 \<Rightarrow> quint32 \<Rightarrow> world
     \<Rightarrow> world result" where
  "wl_keyboard_send_modifiers r serial depressed latched locked group' =
     wl_resource_post_event r (\<lambda>h. SendModifiers h serial depressed latched locked group')"

definition wl_keyboard_send_enter ::
  "wl_resource option \<Rightarrow> quint32 \<Rightarrow> wl_resource \<Rightarrow> quint32 list \<Rightarrow> world \<Rightarrow> world result" where
  "wl_keyboard_send_enter r serial surface keys =
     wl_resource_post_event r (\<lambda>h. SendEnter h serial surface keys)"

definition wl_keyboard_send_leave ::
  "wl_resource option \<Rightarrow> quint32 \<Rightarrow> wl_resource \<Rightarrow> world \<Rightarrow> world result" where
  "wl_keyboard_send_leave r serial surface =
     wl_resource_post_event r (\<lambda>h. SendLeave h serial surface)"

definition wl_keyboard_send_key ::
  "wl_resource option \<Rightarrow> quint32 \<Rightarrow> quint32 \<Rightarrow> quint32 \<Rightarrow> key_state \<Rightarrow> world \<Rightarrow> world result" where
  "wl_keyboard_send_key r serial time key st =
     wl_resource_post_event r (\<lambda>h. SendKey h serial time key st)"

text \<open>
  \<^verbatim>\<open>wl_resource_create\<close>: null when the allocation fails, otherwise a new
  wire object of the client with the version and id asked for.
\<close>

definition wl_resource_create ::
  "os_results \<Rightarrow> wl_client \<Rightarrow> int \<Rightarrow> quint32 \<Rightarrow> world \<Rightarrow> wl_resource option \<times> world" where
  "wl_resource_create os client version id' w =
     (if allocation_succeeds os
      then (Some (WlResource client version id'),
            (emit (WlResourceCreate client version id') w)
              \<lparr>objects := insert (WlResource client version id') (objects w)\<rparr>)
      else (None, emit (WlResourceCreate client version id') w))"

definition wl_resource_post_no_memory :: "wl_resource \<Rightarrow> world \<Rightarrow> world" where
  "wl_resource_post_no_memory parent w = emit (WlResourcePostNoMemory parent) w"

definition wl_resource_set_implementation :: "wl_resource \<Rightarrow> world \<Rightarrow> world" where
  "wl_resource_set_implementation r w = emit (WlResourceSetImplementation r) w"

text \<open>\<^verbatim>\<open>open\<close> and \<^verbatim>\<open>close\<close>; a failed open returns -1 and opens nothing.\<close>

definition sys_open :: "os_results \<Rightarrow> world \<Rightarrow> int \<times> world" where
  "sys_open os w =
     (open_result os,
      (emit (SysOpen (open_result os)) w)
        \<lparr>open_fds := (if 0 \<le> open_result os then insert (open_result os) (open_fds w)
                      else open_fds w)\<rparr>)"

definition sys_close :: "int \<Rightarrow> world \<Rightarrow> world" where
  "sys_close fd w = (emit (SysClose fd) w)\<lparr>open_fds := open_fds w - {fd}\<rparr>"

text \<open>
  \<^verbatim>\<open>QObject::connect\<close> to the \<^verbatim>\<open>destroyed\<close> signal of a surface, with the
  lambda of \<^verbatim>\<open>setFocusedSurface\<close> as the slot: a new live connection, whose handle
  is returned. \<^verbatim>\<open>QObject::disconnect\<close> of a handle removes that connection; on
  an invalid handle it does nothing.
\<close>

definition qt_connect :: "SurfaceInterface \<Rightarrow> world \<Rightarrow> connection \<times> world" where
  "qt_connect s w =
     (next_connection w,
      (emit (QtConnect (next_connection w) s) w)
        \<lparr>connections := connections w @ [(next_connection w, s)],
         next_connection := Suc (next_connection w)\<rparr>)"

definition qt_disconnect :: "connection option \<Rightarrow> world \<Rightarrow> world" where
  "qt_disconnect c w =
     (case c of
        None \<Rightarrow> w
      | Some n \<Rightarrow> (emit (QtDisconnect n) w)
                    \<lparr>connections := filter (\<lambda>p. fst p \<noteq> n) (connections w)\<rparr>)"

subsection \<open>The binding\<close>

text \<open>\<^verbatim>\<open>Q_ASSERT(resource)\<close>, then the keymap event in the XKB format.\<close>

definition sendKeymap_fd_size ::
  "build \<Rightarrow> int \<Rightarrow> quint32 \<Rightarrow> Private \<Rightarrow> world \<Rightarrow> world result" where
  "sendKeymap_fd_size b fd size' d w =
     (if Q_ASSERT_fails b (resource d \<noteq> None) then Inl (AssertionFailed, w)
      else wl_keyboard_send_keymap (resource d) WL_KEYBOARD_KEYMAP_FORMAT_XKB_V1 fd size' w)"

definition sendKeymap :: "build \<Rightarrow> os_results \<Rightarrow> Private \<Rightarrow> world \<Rightarrow> world result" where
  "sendKeymap b os d w =
     (if Q_ASSERT_fails b (resource d \<noteq> None) then Inl (AssertionFailed, w)
      else if isKeymapXkbCompatible (seat d)
      then sendKeymap_fd_size b (keymapFileDescriptor (seat d)) (keymapSize (seat d)) d w
      else (case sys_open os w of
              (nullFd, w1) \<Rightarrow>
                (case wl_keyboard_send_keymap (resource d)
                        WL_KEYBOARD_KEYMAP_FORMAT_NO_KEYMAP nullFd 0 w1 of
                   Inl e \<Rightarrow> Inl e
                 | Inr w2 \<Rightarrow> Inr (sys_close nullFd w2))))"

definition setKeymap :: "build \<Rightarrow> int \<Rightarrow> quint32 \<Rightarrow> Private \<Rightarrow> world \<Rightarrow> world result" where
  "setKeymap b fd size' d w = sendKeymap_fd_size b fd size' d w"

definition sendModifiers_values ::
  "build \<Rightarrow> quint32 \<Rightarrow> quint32 \<Rightarrow> quint32 \<Rightarrow> quint32 \<Rightarrow> quint32 \<Rightarrow> Private \<Rightarrow> world
     \<Rightarrow> world result" where
  "sendModifiers_values b depressed latched locked group' serial d w =
     (if Q_ASSERT_fails b (resource d \<noteq> None) then Inl (AssertionFailed, w)
      else wl_keyboard_send_modifiers (resource d) serial depressed latched locked group' w)"

definition sendModifiers :: "build \<Rightarrow> Private \<Rightarrow> world \<Rightarrow> world result" where
  "sendModifiers b d w =
     sendModifiers_values b (depressedModifiers (seat d)) (latchedModifiers (seat d))
       (lockedModifiers (seat d)) (groupModifiers (seat d)) (lastModifiersSerial (seat d)) d w"

text \<open>
  \<^verbatim>\<open>createInterfae\<close>: on a failed allocation the out-of-memory notification
  goes to the parent object and the call returns; otherwise the handle is stored, the
  implementation with \<^verbatim>\<open>unbind\<close> is attached and the keymap is sent.
\<close>

definition createInterfae ::
  "build \<Rightarrow> os_results \<Rightarrow> wl_client \<Rightarrow> wl_resource \<Rightarrow> quint32 \<Rightarrow> Private \<Rightarrow> world
     \<Rightarrow> (Private \<times> world) result" where
  "createInterfae b os client parentResource id' d w =
     (case wl_resource_create os client (wl_resource_get_version parentResource) id' w of
        (None, w1) \<Rightarrow> Inr (d, wl_resource_post_no_memory parentResource w1)
      | (Some k, w1) \<Rightarrow>
          (case sendKeymap b os (d\<lparr>resource := Some k\<rparr>) (wl_resource_set_implementation k w1) of
             Inl e \<Rightarrow> Inl e
           | Inr w2 \<Rightarrow> Inr (d\<lparr>resource := Some k\<rparr>, w2)))"

text \<open>
  \<^verbatim>\<open>unbind\<close> finds the binding in the user data of the wire object and nulls
  its handle; it calls nothing. \<^verbatim>\<open>releaseCallback\<close> is the handler of the
  client's release request.
\<close>

definition unbind :: "wl_resource \<Rightarrow> Private \<Rightarrow> world \<Rightarrow> Private \<times> world" where
  "unbind r d w = (d\<lparr>resource := None\<rparr>, w)"

definition releaseCallback :: "wl_client \<Rightarrow> wl_resource \<Rightarrow> Private \<Rightarrow> world \<Rightarrow> Private \<times> world" where
  "releaseCallback client r d w = unbind r d w"

text \<open>
  \<^verbatim>\<open>wl_resource_destroy\<close> of libwayland: it runs the callback that
  \<^verbatim>\<open>wl_resource_set_implementation\<close> registered for the object (line 101:
  \<^verbatim>\<open>unbind\<close>, on the binding in the user data) and then frees the object, which
  no longer exists afterwards. \<open>destroy_resource\<close> is the part the transport also
  runs when it destroys an object on its own.
\<close>

definition destroy_resource :: "wl_resource \<Rightarrow> Private \<Rightarrow> world \<Rightarrow> Private \<times> world" where
  "destroy_resource r d w =
     (case unbind r d w of (d', w') \<Rightarrow> (d', w'\<lparr>objects := objects w' - {r}\<rparr>))"

definition wl_resource_destroy :: "wl_resource \<Rightarrow> Private \<Rightarrow> world \<Rightarrow> Private \<times> world" where
  "wl_resource_destroy r d w = destroy_resource r d (emit (WlResourceDestroy r) w)"

text \<open>
  The destructor \<^verbatim>\<open>~KeyboardInterface\<close>. Its body (lines 80-85) destroys the
  wire object when the handle is not null. After the body the binding is deleted, and
  with the \<^verbatim>\<open>QObject\<close> go the connections that have it as their context: those
  made at lines 162-166, which are all the connections of the world.
\<close>

definition KeyboardInterface_destructor_body :: "Private \<Rightarrow> world \<Rightarrow> Private \<times> world" where
  "KeyboardInterface_destructor_body d w =
     (case resource d of None \<Rightarrow> (d, w) | Some r \<Rightarrow> wl_resource_destroy r d w)"

definition qobject_deleted :: "world \<Rightarrow> world" where
  "qobject_deleted w = w\<lparr>connections := []\<rparr>"

definition KeyboardInterface_destructor :: "Private \<Rightarrow> world \<Rightarrow> world" where
  "KeyboardInterface_destructor d w = qobject_deleted (snd (KeyboardInterface_destructor_body d w))"

text \<open>The loop that copies the pressed keys of the seat into a \<^verbatim>\<open>wl_array\<close>.\<close>

fun wl_array_add_all :: "quint32 list \<Rightarrow> quint32 list \<Rightarrow> quint32 list" where
  "wl_array_add_all keys [] = keys"
| "wl_array_add_all keys (k # states) = wl_array_add_all (keys @ [k]) states"

definition setFocusedSurface ::
  "build \<Rightarrow> SurfaceInterface option \<Rightarrow> quint32 \<Rightarrow> Private \<Rightarrow> world
     \<Rightarrow> (Private \<times> world) result" where
  "setFocusedSurface b surface serial d w =
     (case (case focusedSurface d of
              None \<Rightarrow> Inr (d, w)
            | Some old \<Rightarrow>
                (case wl_keyboard_send_leave (resource d) serial (surface_resource old) w of
                   Inl e \<Rightarrow> Inl e
                 | Inr w1 \<Rightarrow> Inr (d, qt_disconnect (destroyConnection d) w1))) of
        Inl e \<Rightarrow> Inl e
      | Inr (d1, w1) \<Rightarrow>
          (let d2 = d1\<lparr>focusedSurface := surface\<rparr> in
           case focusedSurface d2 of
             None \<Rightarrow> Inr (d2, w1)
           | Some s \<Rightarrow>
               (case qt_connect s w1 of
                  (c, w2) \<Rightarrow>
                    (let d3 = d2\<lparr>destroyConnection := Some c\<rparr> in
                     case wl_keyboard_send_enter (resource d3) serial (surface_resource s)
                            (wl_array_add_all [] (pressedKeys (seat d3))) w2 of
                       Inl e \<Rightarrow> Inl e
                     | Inr w3 \<Rightarrow>
                         (case sendModifiers b d3 w3 of
                            Inl e \<Rightarrow> Inl e
                          | Inr w4 \<Rightarrow> Inr (d3, w4))))))"

definition keyPressed ::
  "build \<Rightarrow> quint32 \<Rightarrow> quint32 \<Rightarrow> Private \<Rightarrow> world \<Rightarrow> world result" where
  "keyPressed b key serial d w =
     (if Q_ASSERT_fails b (focusedSurface d \<noteq> None) then Inl (AssertionFailed, w)
      else wl_keyboard_send_key (resource d) serial (timestamp (seat d)) key
             WL_KEYBOARD_KEY_STATE_PRESSED w)"

definition keyReleased ::
  "build \<Rightarrow> quint32 \<Rightarrow> quint32 \<Rightarrow> Private \<Rightarrow> world \<Rightarrow> world result" where
  "keyReleased b key serial d w =
     (if Q_ASSERT_fails b (focusedSurface d \<noteq> None) then Inl (AssertionFailed, w)
      else wl_keyboard_send_key (resource d) serial (timestamp (seat d)) key
             WL_KEYBOARD_KEY_STATE_RELEASED w)"

definition updateModifiers ::
  "build \<Rightarrow> quint32 \<Rightarrow> quint32 \<Rightarrow> quint32 \<Rightarrow> quint32 \<Rightarrow> quint32 \<Rightarrow> Private \<Rightarrow> world
     \<Rightarrow> world result" where
  "updateModifiers b depressed latched locked group' serial d w =
     (if Q_ASSERT_fails b (focusedSurface d \<noteq> None) then Inl (AssertionFailed, w)
      else sendModifiers_values b depressed latched locked group' serial d w)"

text \<open>
  The lambda connected to the \<^verbatim>\<open>destroyed\<close> signal of the focused surface, and
  the destruction of a surface by its owner: the signal runs the slot of every live
  connection to that surface, and the connections of the destroyed sender are dropped.
\<close>

definition destroyed_lambda :: "Private \<Rightarrow> Private" where
  "destroyed_lambda d = d\<lparr>focusedSurface := None\<rparr>"

definition surface_destroyed :: "SurfaceInterface \<Rightarrow> Private \<Rightarrow> world \<Rightarrow> Private \<times> world" where
  "surface_destroyed s d w =
     (fold (\<lambda>p d'. if snd p = s then destroyed_lambda d' else d') (connections w) d,
      w\<lparr>connections := filter (\<lambda>p. snd p \<noteq> s) (connections w)\<rparr>)"

subsection \<open>The transport's side\<close>

text \<open>
  The transport calls back only for wire objects that exist. When it destroys an object
  itself (the client went away), it runs the callback registered with
  \<^verbatim>\<open>wl_resource_set_implementation\<close>, here \<^verbatim>\<open>unbind\<close>; when the
  client sends the release request, it dispatches to \<^verbatim>\<open>releaseCallback\<close>.
  \<open>None\<close>: the transport cannot take this step.
\<close>

definition transport_unbind :: "wl_resource \<Rightarrow> Private \<Rightarrow> world \<Rightarrow> (Private \<times> world) option" where
  "transport_unbind r d w = (if r \<in> objects w then Some (destroy_resource r d w) else None)"

definition transport_release ::
  "wl_client \<Rightarrow> wl_resource \<Rightarrow> Private \<Rightarrow> world \<Rightarrow> (Private \<times> world) option" where
  "transport_release client r d w =
     (if r \<in> objects w then Some (releaseCallback client r d w) else None)"

subsection \<open>Sequences of focus changes\<close>

text \<open>
  A run of \<^verbatim>\<open>setFocusedSurface\<close> calls. Each call comes with the state the seat
  has when the call is made, since the seat changes between calls.
\<close>

fun run_setFocusedSurface ::
  "build \<Rightarrow> (SeatInterface \<times> SurfaceInterface option \<times> quint32) list \<Rightarrow> Private \<Rightarrow> world
     \<Rightarrow> (Private \<times> world) result" where
  "run_setFocusedSurface b [] d w = Inr (d, w)"
| "run_setFocusedSurface b ((st, surface, serial) # calls) d w =
     (case setFocusedSurface b surface serial (d\<lparr>seat := st\<rparr>) w of
        Inl e \<Rightarrow> Inl e
      | Inr (d', w') \<Rightarrow> run_setFocusedSurface b calls d' w')"

subsection \<open>Reading a trace\<close>

text \<open>What a call added to the trace.\<close>

definition new_actions :: "world \<Rightarrow> world \<Rightarrow> action list" where
  "new_actions w w' = drop (length (trace w)) (trace w')"

fun is_keymap :: "action \<Rightarrow> bool" where
  "is_keymap (SendKeymap h format fd size') = True"
| "is_keymap _ = False"

fun is_enter_of :: "wl_resource \<Rightarrow> action \<Rightarrow> bool" where
  "is_enter_of r (SendEnter h serial s keys) = (s = r)"
| "is_enter_of r _ = False"

fun is_connect_to :: "SurfaceInterface \<Rightarrow> action \<Rightarrow> bool" where
  "is_connect_to s (QtConnect c s') = (s' = s)"
| "is_connect_to s _ = False"

fun is_destroy_of :: "wl_resource \<Rightarrow> action \<Rightarrow> bool" where
  "is_destroy_of r (WlResourceDestroy r') = (r' = r)"
| "is_destroy_of r _ = False"

text \<open>Some action with \<open>P\<close> stands strictly before some action with \<open>Q\<close>.\<close>

fun precedes :: "('a \<Rightarrow> bool) \<Rightarrow> ('a \<Rightarrow> bool) \<Rightarrow> 'a list \<Rightarrow> bool" where
  "precedes P Q [] = False"
| "precedes P Q (x # xs) = ((P x \<and> list_ex Q xs) \<or> precedes P Q xs)"

text \<open>
  The focus protocol as the client sees it, from the surface the client holds as
  focused: a leave names that surface and ends the focus period, an enter is only sent
  while no surface is held. Other actions do not matter.
\<close>

fun focus_protocol :: "wl_resource option \<Rightarrow> action list \<Rightarrow> bool" where
  "focus_protocol cur [] = True"
| "focus_protocol cur (SendLeave h serial s # evs) = (cur = Some s \<and> focus_protocol None evs)"
| "focus_protocol cur (SendEnter h serial s keys # evs) =
     (cur = None \<and> focus_protocol (Some s) evs)"
| "focus_protocol cur (a # evs) = focus_protocol cur evs"

text \<open>The leave events of a trace: serial and surface.\<close>

fun leaves :: "action list \<Rightarrow> (quint32 \<times> wl_resource) list" where
  "leaves [] = []"
| "leaves (SendLeave h serial s # evs) = (serial, s) # leaves evs"
| "leaves (a # evs) = leaves evs"

text \<open>
  The leave events a run of calls owes: one for each call made while a surface is
  focused, with the serial of that call and the surface focused until then.
\<close>

fun expected_leaves ::
  "SurfaceInterface option \<Rightarrow> (SeatInterface \<times> SurfaceInterface option \<times> quint32) list
     \<Rightarrow> (quint32 \<times> wl_resource) list" where
  "expected_leaves cur [] = []"
| "expected_leaves cur ((st, surface, serial) # calls) =
     (case cur of None \<Rightarrow> [] | Some old \<Rightarrow> [(serial, surface_resource old)])
       @ expected_leaves surface calls"

text \<open>The world a call ends in, whether it returns or aborts.\<close>

definition final_world :: "(Private \<times> world) result \<Rightarrow> world" where
  "final_world r = (case r of Inl (e, w) \<Rightarrow> w | Inr (d, w) \<Rightarrow> w)"

text \<open>
  The binding holds a live connection to the \<^verbatim>\<open>destroyed\<close> signal of a
  surface: its handle names a connection that exists.
\<close>

definition subscribed :: "Private \<Rightarrow> world \<Rightarrow> bool" where
  "subscribed d w = list_ex (\<lambda>p. destroyConnection d = Some (fst p)) (connections w)"

subsection \<open>A concrete seat, client and surfaces\<close>

definition seat_resource :: wl_resource where
  "seat_resource = WlResource 1 4 2"

definition keyboard_resource :: wl_resource where
  "keyboard_resource = WlResource 1 4 7"

definition surface_A :: SurfaceInterface where
  "surface_A = SurfaceInterface (WlResource 1 4 20)"

definition surface_B :: SurfaceInterface where
  "surface_B = SurfaceInterface (WlResource 1 4 21)"

definition xkb_seat :: SeatInterface where
  "xkb_seat = \<lparr>isKeymapXkbCompatible = True, keymapFileDescriptor = 3, keymapSize = 1024,
     pressedKeys = [30, 31], timestamp = 500, depressedModifiers = 1, latchedModifiers = 0,
     lockedModifiers = 2, groupModifiers = 0, lastModifiersSerial = 9\<rparr>"

definition idle_seat :: SeatInterface where
  "idle_seat = xkb_seat\<lparr>pressedKeys := []\<rparr>"

definition plain_seat :: SeatInterface where
  "plain_seat = xkb_seat\<lparr>isKeymapXkbCompatible := False\<rparr>"

definition fresh_world :: world where
  "fresh_world = \<lparr>trace = [], objects = {seat_resource}, open_fds = {0, 1, 2, 3},
     connections = [], next_connection = 0\<rparr>"

definition unbound_keyboard :: Private where
  "unbound_keyboard = \<lparr>seat = xkb_seat, focusedSurface = None, destroyConnection = None,
     resource = None\<rparr>"

definition bound_keyboard :: Private where
  "bound_keyboard = unbound_keyboard\<lparr>resource := Some keyboard_resource\<rparr>"

definition bound_world :: world where
  "bound_world = fresh_world\<lparr>
     trace := [WlResourceCreate 1 4 7, WlResourceSetImplementation keyboard_resource,
               SendKeymap keyboard_resource WL_KEYBOARD_KEYMAP_FORMAT_XKB_V1 3 1024],
     objects := {keyboard_resource, seat_resource}\<rparr>"

definition focused_keyboard :: Private where
  "focused_keyboard = bound_keyboard\<lparr>focusedSurface := Some surface_A,
     destroyConnection := Some 0\<rparr>"

definition focused_world :: world where
  "focused_world = bound_world\<lparr>
     trace := trace bound_world @
       [QtConnect 0 surface_A,
        SendEnter keyboard_resource 10 (surface_resource surface_A) [30, 31],
        SendModifiers keyboard_resource 9 1 0 2 0],
     connections := [(0, surface_A)], next_connection := 1\<rparr>"

definition memory_and_descriptor :: os_results where
  "memory_and_descriptor = \<lparr>allocation_succeeds = True, open_result = 5\<rparr>"

definition out_of_memory :: os_results where
  "out_of_memory = \<lparr>allocation_succeeds = False, open_result = 5\<rparr>"

section \<open>Verification\<close>

subsection \<open>Auxiliary facts\<close>

lemmas prims = emit_def wl_resource_post_event_def wl_keyboard_send_keymap_def
  wl_keyboard_send_modifiers_def wl_keyboard_send_enter_def wl_keyboard_send_leave_def
  wl_keyboard_send_key_def wl_resource_create_def wl_resource_post_no_memory_def
  wl_resource_set_implementation_def sys_open_def sys_close_def qt_connect_def
  qt_disconnect_def Q_ASSERT_fails_def

lemmas examples = seat_resource_def keyboard_resource_def surface_A_def surface_B_def
  xkb_seat_def idle_seat_def plain_seat_def fresh_world_def unbound_keyboard_def
  bound_keyboard_def bound_world_def focused_keyboard_def focused_world_def
  memory_and_descriptor_def out_of_memory_def

lemma wl_array_add_all_append: "wl_array_add_all keys states = keys @ states"
  by (induction states arbitrary: keys) auto

lemma new_actions_append: "trace w' = trace w @ evs \<Longrightarrow> new_actions w w' = evs"
  by (simp add: new_actions_def)

text \<open>
  The concrete states are states of the program: creation on the fresh world gives the
  bound keyboard, and focusing surface A there gives the focused one.
\<close>

lemma reach_bound:
  "createInterfae b memory_and_descriptor 1 seat_resource 7 unbound_keyboard fresh_world
     = Inr (bound_keyboard, bound_world)"
  by (simp add: createInterfae_def sendKeymap_def sendKeymap_fd_size_def prims examples)

lemma reach_focused:
  "setFocusedSurface b (Some surface_A) 10 bound_keyboard bound_world
     = Inr (focused_keyboard, focused_world)"
  by (simp add: setFocusedSurface_def sendModifiers_def sendModifiers_values_def prims
      examples Let_def)

text \<open>
  One call on a bound keyboard returns, and this is all it does: the leave and the
  disconnect when a surface was focused, then the connect, the enter and the modifiers
  when a surface is given.
\<close>

lemma setFocusedSurface_bound:
  assumes "resource d = Some h"
  shows "\<exists>w'. setFocusedSurface b surface serial d w =
           Inr (d\<lparr>focusedSurface := surface,
                  destroyConnection := (case surface of None \<Rightarrow> destroyConnection d
                                        | Some s \<Rightarrow> Some (next_connection w))\<rparr>, w')
         \<and> trace w' = trace w
             @ (case focusedSurface d of None \<Rightarrow> []
                | Some old \<Rightarrow> SendLeave h serial (surface_resource old)
                     # (case destroyConnection d of None \<Rightarrow> [] | Some n \<Rightarrow> [QtDisconnect n]))
             @ (case surface of None \<Rightarrow> []
                | Some s \<Rightarrow> [QtConnect (next_connection w) s,
                     SendEnter h serial (surface_resource s) (pressedKeys (seat d)),
                     SendModifiers h (lastModifiersSerial (seat d)) (depressedModifiers (seat d))
                       (latchedModifiers (seat d)) (lockedModifiers (seat d))
                       (groupModifiers (seat d))])
         \<and> connections w' =
             (case focusedSurface d of None \<Rightarrow> connections w
              | Some old \<Rightarrow> (case destroyConnection d of None \<Rightarrow> connections w
                  | Some n \<Rightarrow> filter (\<lambda>p. fst p \<noteq> n) (connections w)))
             @ (case surface of None \<Rightarrow> [] | Some s \<Rightarrow> [(next_connection w, s)])
         \<and> objects w' = objects w \<and> open_fds w' = open_fds w"
  using assms
  by (auto simp: setFocusedSurface_def sendModifiers_def sendModifiers_values_def prims
      wl_array_add_all_append Let_def split: option.splits)

lemma focus_protocol_call:
  "focus_protocol (map_option surface_resource cur)
     ((case cur of None \<Rightarrow> []
       | Some old \<Rightarrow> SendLeave h serial (surface_resource old)
            # (case c of None \<Rightarrow> [] | Some n \<Rightarrow> [QtDisconnect n]))
      @ (case surface of None \<Rightarrow> []
         | Some s \<Rightarrow> [QtConnect n' s, SendEnter h serial (surface_resource s) keys,
              SendModifiers h ms dm lm km gm])
      @ evs)
   = focus_protocol (map_option surface_resource surface) evs"
  by (cases cur; cases c; cases surface) simp_all

lemma leaves_call:
  "leaves
     ((case cur of None \<Rightarrow> []
       | Some old \<Rightarrow> SendLeave h serial (surface_resource old)
            # (case c of None \<Rightarrow> [] | Some n \<Rightarrow> [QtDisconnect n]))
      @ (case surface of None \<Rightarrow> []
         | Some s \<Rightarrow> [QtConnect n' s, SendEnter h serial (surface_resource s) keys,
              SendModifiers h ms dm lm km gm])
      @ evs)
   = (case cur of None \<Rightarrow> [] | Some old \<Rightarrow> [(serial, surface_resource old)]) @ leaves evs"
  by (cases cur; cases c; cases surface) simp_all

lemma run_setFocusedSurface_bound:
  assumes "resource d = Some h"
  shows "\<exists>d' w' evs. run_setFocusedSurface b calls d w = Inr (d', w')
           \<and> resource d' = Some h
           \<and> trace w' = trace w @ evs
           \<and> focus_protocol (map_option surface_resource (focusedSurface d)) evs
           \<and> leaves evs = expected_leaves (focusedSurface d) calls"
  using assms
proof (induction calls arbitrary: d w)
  case Nil
  then show ?case by simp
next
  case (Cons call calls)
  obtain st surface serial where call: "call = (st, surface, serial)"
    by (cases call) auto
  let ?d0 = "d\<lparr>seat := st\<rparr>"
  have bound0: "resource ?d0 = Some h" using Cons.prems by simp
  obtain d1 w1 where
    step: "setFocusedSurface b surface serial ?d0 w = Inr (d1, w1)" and
    res1: "resource d1 = Some h" and
    foc1: "focusedSurface d1 = surface" and
    tr1: "trace w1 = trace w
             @ (case focusedSurface ?d0 of None \<Rightarrow> []
                | Some old \<Rightarrow> SendLeave h serial (surface_resource old)
                     # (case destroyConnection ?d0 of None \<Rightarrow> [] | Some n \<Rightarrow> [QtDisconnect n]))
             @ (case surface of None \<Rightarrow> []
                | Some s \<Rightarrow> [QtConnect (next_connection w) s,
                     SendEnter h serial (surface_resource s) (pressedKeys (seat ?d0)),
                     SendModifiers h (lastModifiersSerial (seat ?d0)) (depressedModifiers (seat ?d0))
                       (latchedModifiers (seat ?d0)) (lockedModifiers (seat ?d0))
                       (groupModifiers (seat ?d0))])"
    using setFocusedSurface_bound [OF bound0, of b surface serial w] Cons.prems by auto
  obtain d' w' evs where
    run: "run_setFocusedSurface b calls d1 w1 = Inr (d', w')" and
    res': "resource d' = Some h" and
    tr': "trace w' = trace w1 @ evs" and
    prot: "focus_protocol (map_option surface_resource (focusedSurface d1)) evs" and
    lv: "leaves evs = expected_leaves (focusedSurface d1) calls"
    using Cons.IH [OF res1, of w1] by blast
  let ?evs = "(case focusedSurface d of None \<Rightarrow> []
                | Some old \<Rightarrow> SendLeave h serial (surface_resource old)
                     # (case destroyConnection d of None \<Rightarrow> [] | Some n \<Rightarrow> [QtDisconnect n]))
             @ (case surface of None \<Rightarrow> []
                | Some s \<Rightarrow> [QtConnect (next_connection w) s,
                     SendEnter h serial (surface_resource s) (pressedKeys st),
                     SendModifiers h (lastModifiersSerial st) (depressedModifiers st)
                       (latchedModifiers st) (lockedModifiers st) (groupModifiers st)])
             @ evs"
  have "run_setFocusedSurface b (call # calls) d w = Inr (d', w')"
    using call step run by simp
  moreover have "trace w' = trace w @ ?evs"
    using tr' tr1 by (simp cong: option.case_cong)
  moreover have "focus_protocol (map_option surface_resource (focusedSurface d)) ?evs"
    using prot foc1 by (simp only: focus_protocol_call)
  moreover have "leaves ?evs = expected_leaves (focusedSurface d) (call # calls)"
    using lv foc1 call by (simp only: leaves_call expected_leaves.simps)
  ultimately show ?case using res' by blast
qed

text \<open>
  The run of the specification's scenario: surface A is focused with serial 10 while keys
  30 and 31 are pressed, then surface B with serial 11 and no key pressed.
\<close>

lemma scenario_trace:
  "new_actions bound_world (final_world (run_setFocusedSurface b
          [(xkb_seat, Some surface_A, 10), (idle_seat, Some surface_B, 11)]
          bound_keyboard bound_world))
   = [QtConnect 0 surface_A,
      SendEnter keyboard_resource 10 (surface_resource surface_A) [30, 31],
      SendModifiers keyboard_resource 9 1 0 2 0,
      SendLeave keyboard_resource 11 (surface_resource surface_A),
      QtDisconnect 0,
      QtConnect 1 surface_B,
      SendEnter keyboard_resource 11 (surface_resource surface_B) [],
      SendModifiers keyboard_resource 9 1 0 2 0]"
  by (simp add: setFocusedSurface_def sendModifiers_def sendModifiers_values_def prims examples
      Let_def new_actions_def final_world_def)


text \<open>The order of the connect and the enter in what one call adds to the trace.\<close>

lemma precedes_connect_enter:
  "precedes (is_connect_to s) (is_enter_of (surface_resource s))
     ((case cur of None \<Rightarrow> []
       | Some old \<Rightarrow> SendLeave h serial (surface_resource old)
            # (case c of None \<Rightarrow> [] | Some n \<Rightarrow> [QtDisconnect n]))
      @ [QtConnect n' s, SendEnter h serial (surface_resource s) keys,
         SendModifiers h ms dm lm km gm])"
  by (cases cur; cases c) simp_all

lemma not_precedes_enter_connect:
  "\<not> precedes (is_enter_of r) (is_connect_to s)
     ((case cur of None \<Rightarrow> []
       | Some old \<Rightarrow> SendLeave h serial (surface_resource old)
            # (case c of None \<Rightarrow> [] | Some n \<Rightarrow> [QtDisconnect n]))
      @ [QtConnect n' s, SendEnter h serial r keys,
         SendModifiers h ms dm lm km gm])"
  by (cases cur; cases c) simp_all

text \<open>
  The destruction of a surface that has a live connection runs the lambda: the focus is
  cleared, nothing is sent.
\<close>

lemma destroyed_lambda_idem: "destroyed_lambda (destroyed_lambda d) = destroyed_lambda d"
  by (simp add: destroyed_lambda_def)

lemma fold_destroyed_lambda:
  "fold (\<lambda>p d'. if snd p = s then destroyed_lambda d' else d') cs d
     = (if list_ex (\<lambda>p. snd p = s) cs then destroyed_lambda d else d)"
  by (induction cs arbitrary: d) (auto simp: destroyed_lambda_idem)

lemma surface_destroyed_subscribed:
  assumes "(c, s) \<in> set (connections w)"
  shows "surface_destroyed s d w
           = (d\<lparr>focusedSurface := None\<rparr>,
              w\<lparr>connections := filter (\<lambda>p. snd p \<noteq> s) (connections w)\<rparr>)"
proof -
  have "list_ex (\<lambda>p. snd p = s) (connections w)"
    using assms by (force simp: list_ex_iff)
  then show ?thesis
    by (simp add: surface_destroyed_def fold_destroyed_lambda destroyed_lambda_def)
qed

text \<open>With a focused surface the key event is sent: the assertion is not always false.\<close>

lemma focused_sends_key:
  "keyPressed b 30 12 focused_keyboard focused_world
     = Inr (focused_world\<lparr>trace := trace focused_world
              @ [SendKey keyboard_resource 12 500 30 WL_KEYBOARD_KEY_STATE_PRESSED]\<rparr>)"
  by (simp add: keyPressed_def prims examples)
subsection \<open>Claims\<close>

text \<open>
  C1. Every sequence of \<^verbatim>\<open>setFocusedSurface\<close> calls on a bound keyboard returns.
  The leave events it sends are exactly one for each call made while a surface was
  focused, carrying the serial of that call and the surface focused until then; and the
  events follow the focus protocol: a leave names the surface the client holds and ends
  its focus period, so no period has two leaves, and an enter is sent only when no
  surface is held, that is after the leave of the previous one.
\<close>

theorem leave_before_enter:
  assumes "resource d = Some h"
  shows "\<exists>d' w'. run_setFocusedSurface b calls d w = Inr (d', w')
           \<and> take (length (trace w)) (trace w') = trace w
           \<and> focus_protocol (map_option surface_resource (focusedSurface d)) (new_actions w w')
           \<and> leaves (new_actions w w') = expected_leaves (focusedSurface d) calls"
proof -
  obtain d' w' evs where
    "run_setFocusedSurface b calls d w = Inr (d', w')" and
    tr: "trace w' = trace w @ evs" and
    "focus_protocol (map_option surface_resource (focusedSurface d)) evs" and
    "leaves evs = expected_leaves (focusedSurface d) calls"
    using run_setFocusedSurface_bound [OF assms, of b calls w] by blast
  moreover have "new_actions w w' = evs" using tr by (rule new_actions_append)
  moreover have "take (length (trace w)) (trace w') = trace w" using tr by simp
  ultimately show ?thesis by auto
qed

theorem leave_before_enter_witness:
  "resource bound_keyboard = Some keyboard_resource
   \<and> (\<exists>d' w'. run_setFocusedSurface QT_NO_DEBUG
          [(xkb_seat, Some surface_A, 10), (idle_seat, Some surface_B, 11)]
          bound_keyboard bound_world = Inr (d', w')
        \<and> take 3 (trace w') = trace bound_world
        \<and> focus_protocol None (new_actions bound_world w')
        \<and> leaves (new_actions bound_world w') = [(11, surface_resource surface_A)])"
proof -
  have h: "resource bound_keyboard = Some keyboard_resource"
    by (simp add: examples)
  have f: "focusedSurface bound_keyboard = None"
    by (simp add: examples)
  have l: "length (trace bound_world) = 3"
    by (simp add: examples)
  have e: "expected_leaves None [(xkb_seat, Some surface_A, 10), (idle_seat, Some surface_B, 11)]
             = [(11, surface_resource surface_A)]"
    by simp
  show ?thesis
    using leave_before_enter [OF h, of QT_NO_DEBUG
          "[(xkb_seat, Some surface_A, 10), (idle_seat, Some surface_B, 11)]" bound_world] h
    by (simp only: f l e option.map)
qed

text \<open>
  C2, as the code has it. A call of \<^verbatim>\<open>setFocusedSurface\<close> with a surface on
  a bound keyboard returns; in what it adds to the trace the connection to the
  \<^verbatim>\<open>destroyed\<close> signal of that surface stands before the enter event that
  names the surface, and no enter for it stands before the connection. On return the
  surface is focused and the connection the binding holds is live.
\<close>

theorem subscription_before_enter:
  assumes "resource d = Some h"
  shows "\<exists>d' w'. setFocusedSurface b (Some s) serial d w = Inr (d', w')
           \<and> precedes (is_connect_to s) (is_enter_of (surface_resource s)) (new_actions w w')
           \<and> \<not> precedes (is_enter_of (surface_resource s)) (is_connect_to s) (new_actions w w')
           \<and> focusedSurface d' = Some s
           \<and> destroyConnection d' = Some (next_connection w)
           \<and> (next_connection w, s) \<in> set (connections w')"
proof -
  obtain w' where
    step: "setFocusedSurface b (Some s) serial d w =
             Inr (d\<lparr>focusedSurface := Some s, destroyConnection := Some (next_connection w)\<rparr>, w')" and
    tr: "trace w' = trace w
             @ (case focusedSurface d of None \<Rightarrow> []
                | Some old \<Rightarrow> SendLeave h serial (surface_resource old)
                     # (case destroyConnection d of None \<Rightarrow> [] | Some n \<Rightarrow> [QtDisconnect n]))
             @ [QtConnect (next_connection w) s,
                     SendEnter h serial (surface_resource s) (pressedKeys (seat d)),
                     SendModifiers h (lastModifiersSerial (seat d)) (depressedModifiers (seat d))
                       (latchedModifiers (seat d)) (lockedModifiers (seat d))
                       (groupModifiers (seat d))]" and
    con: "connections w' =
             (case focusedSurface d of None \<Rightarrow> connections w
              | Some old \<Rightarrow> (case destroyConnection d of None \<Rightarrow> connections w
                  | Some n \<Rightarrow> filter (\<lambda>p. fst p \<noteq> n) (connections w)))
             @ [(next_connection w, s)]"
    using setFocusedSurface_bound [OF assms, of b "Some s" serial w] by auto
  have na: "new_actions w w' = (case focusedSurface d of None \<Rightarrow> []
                | Some old \<Rightarrow> SendLeave h serial (surface_resource old)
                     # (case destroyConnection d of None \<Rightarrow> [] | Some n \<Rightarrow> [QtDisconnect n]))
             @ [QtConnect (next_connection w) s,
                     SendEnter h serial (surface_resource s) (pressedKeys (seat d)),
                     SendModifiers h (lastModifiersSerial (seat d)) (depressedModifiers (seat d))
                       (latchedModifiers (seat d)) (lockedModifiers (seat d))
                       (groupModifiers (seat d))]"
    using tr by (rule new_actions_append)
  have "precedes (is_connect_to s) (is_enter_of (surface_resource s)) (new_actions w w')"
    unfolding na by (rule precedes_connect_enter)
  moreover have "\<not> precedes (is_enter_of (surface_resource s)) (is_connect_to s) (new_actions w w')"
    unfolding na by (rule not_precedes_enter_connect)
  moreover have "(next_connection w, s) \<in> set (connections w')"
    using con by simp
  ultimately show ?thesis using step by simp
qed

theorem subscription_before_enter_witness:
  "resource bound_keyboard = Some keyboard_resource
   \<and> (\<exists>d' w'. setFocusedSurface QT_NO_DEBUG (Some surface_A) 10 bound_keyboard bound_world = Inr (d', w')
        \<and> precedes (is_connect_to surface_A) (is_enter_of (surface_resource surface_A))
            (new_actions bound_world w')
        \<and> \<not> precedes (is_enter_of (surface_resource surface_A)) (is_connect_to surface_A)
            (new_actions bound_world w')
        \<and> focusedSurface d' = Some surface_A
        \<and> destroyConnection d' = Some 0
        \<and> (0, surface_A) \<in> set (connections w'))"
proof -
  have h: "resource bound_keyboard = Some keyboard_resource"
    by (simp add: examples)
  have n: "next_connection bound_world = 0"
    by (simp add: examples)
  show ?thesis
    using subscription_before_enter [OF h, of QT_NO_DEBUG surface_A 10 bound_world] h
    by (simp only: n)
qed

text \<open>
  C2 as stated (the subscription is established only after the enter event has been
  queued) fails: focusing surface A on the bound keyboard connects first and sends the
  enter second.
\<close>

theorem subscription_after_enter_counterexample:
  "new_actions bound_world
       (final_world (setFocusedSurface QT_NO_DEBUG (Some surface_A) 10 bound_keyboard bound_world))
     = [QtConnect 0 surface_A,
        SendEnter keyboard_resource 10 (surface_resource surface_A) [30, 31],
        SendModifiers keyboard_resource 9 1 0 2 0]
   \<and> \<not> precedes (is_enter_of (surface_resource surface_A)) (is_connect_to surface_A)
         (new_actions bound_world
            (final_world (setFocusedSurface QT_NO_DEBUG (Some surface_A) 10 bound_keyboard bound_world)))"
  by (simp add: reach_focused final_world_def new_actions_def)
     (simp add: examples)

text \<open>
  C3, as the code has it. When the transport invokes \<^verbatim>\<open>unbind\<close> on a bound
  keyboard, the stored handle becomes null and nothing is called: the handle is not
  destroyed by the binding, and the focus, the connection handle and the live
  connections stay as they were, so a binding subscribed to its focused surface is
  still subscribed.
\<close>

theorem unbind_clears_handle_only:
  assumes "resource d = Some r" and "r \<in> objects w"
  shows "unbind r d w = (d\<lparr>resource := None\<rparr>, w)
         \<and> transport_unbind r d w = Some (d\<lparr>resource := None\<rparr>, w\<lparr>objects := objects w - {r}\<rparr>)
         \<and> resource (fst (unbind r d w)) = None
         \<and> focusedSurface (fst (unbind r d w)) = focusedSurface d
         \<and> destroyConnection (fst (unbind r d w)) = destroyConnection d
         \<and> trace (snd (unbind r d w)) = trace w
         \<and> connections (snd (unbind r d w)) = connections w
         \<and> subscribed (fst (unbind r d w)) (snd (unbind r d w)) = subscribed d w"
  using assms by (simp add: unbind_def transport_unbind_def destroy_resource_def subscribed_def)

theorem unbind_clears_handle_only_witness:
  "resource focused_keyboard = Some keyboard_resource
   \<and> keyboard_resource \<in> objects focused_world
   \<and> unbind keyboard_resource focused_keyboard focused_world
       = (focused_keyboard\<lparr>resource := None\<rparr>, focused_world)
   \<and> resource (fst (unbind keyboard_resource focused_keyboard focused_world)) = None
   \<and> focusedSurface (fst (unbind keyboard_resource focused_keyboard focused_world))
       = Some surface_A
   \<and> destroyConnection (fst (unbind keyboard_resource focused_keyboard focused_world)) = Some 0
   \<and> trace (snd (unbind keyboard_resource focused_keyboard focused_world)) = trace focused_world"
proof -
  have h: "resource focused_keyboard = Some keyboard_resource"
    by (simp add: examples)
  have o: "keyboard_resource \<in> objects focused_world"
    by (simp add: examples)
  have f: "focusedSurface focused_keyboard = Some surface_A"
    "destroyConnection focused_keyboard = Some 0"
    by (simp_all add: examples)
  show ?thesis
    using unbind_clears_handle_only [OF h o] h o f by simp
qed

text \<open>
  C3 as stated (unbind also clears the focus-change subscription) fails: after the
  transport's unbind on the keyboard focused on surface A, the binding still holds the
  live connection to the \<^verbatim>\<open>destroyed\<close> signal of A.
\<close>

theorem unbind_clears_subscription_counterexample:
  "resource focused_keyboard = Some keyboard_resource
   \<and> keyboard_resource \<in> objects focused_world
   \<and> transport_unbind keyboard_resource focused_keyboard focused_world
       = Some (focused_keyboard\<lparr>resource := None\<rparr>,
               focused_world\<lparr>objects := {seat_resource}\<rparr>)
   \<and> subscribed (focused_keyboard\<lparr>resource := None\<rparr>)
       (focused_world\<lparr>objects := {seat_resource}\<rparr>)
   \<and> subscribed (fst (unbind keyboard_resource focused_keyboard focused_world))
       (snd (unbind keyboard_resource focused_keyboard focused_world))"
  by (simp add: transport_unbind_def destroy_resource_def unbind_def subscribed_def examples)

text \<open>
  C4. A creation whose allocation succeeds returns with the handle stored and has sent
  exactly one keymap event: with a compatible keymap the descriptor and the size of the
  seat in the XKB format, otherwise the no-keymap format with the descriptor just
  opened and size 0, that descriptor being closed after the event and before the
  return, so that it is not among the open descriptors afterwards.
\<close>

theorem create_sends_one_keymap:
  assumes "allocation_succeeds os"
  shows "\<exists>w'. createInterfae b os client parentResource id' d w
             = Inr (d\<lparr>resource := Some (WlResource client (wl_resource_get_version parentResource) id')\<rparr>, w')
           \<and> filter is_keymap (new_actions w w')
               = [if isKeymapXkbCompatible (seat d)
                  then SendKeymap (WlResource client (wl_resource_get_version parentResource) id')
                         WL_KEYBOARD_KEYMAP_FORMAT_XKB_V1
                         (keymapFileDescriptor (seat d)) (keymapSize (seat d))
                  else SendKeymap (WlResource client (wl_resource_get_version parentResource) id')
                         WL_KEYBOARD_KEYMAP_FORMAT_NO_KEYMAP (open_result os) 0]
           \<and> new_actions w w'
               = [WlResourceCreate client (wl_resource_get_version parentResource) id',
                  WlResourceSetImplementation
                    (WlResource client (wl_resource_get_version parentResource) id')]
                 @ (if isKeymapXkbCompatible (seat d)
                    then [SendKeymap (WlResource client (wl_resource_get_version parentResource) id')
                            WL_KEYBOARD_KEYMAP_FORMAT_XKB_V1
                            (keymapFileDescriptor (seat d)) (keymapSize (seat d))]
                    else [SysOpen (open_result os),
                          SendKeymap (WlResource client (wl_resource_get_version parentResource) id')
                            WL_KEYBOARD_KEYMAP_FORMAT_NO_KEYMAP (open_result os) 0,
                          SysClose (open_result os)])
           \<and> (if isKeymapXkbCompatible (seat d) then open_fds w' = open_fds w
               else open_fds w' = open_fds w - {open_result os})"
  using assms
  by (auto simp: createInterfae_def sendKeymap_def sendKeymap_fd_size_def prims new_actions_def)

theorem create_sends_one_keymap_witness:
  "allocation_succeeds memory_and_descriptor
   \<and> (\<exists>w'. createInterfae QT_NO_DEBUG memory_and_descriptor 1 seat_resource 7 unbound_keyboard fresh_world
             = Inr (unbound_keyboard\<lparr>resource := Some keyboard_resource\<rparr>, w')
        \<and> filter is_keymap (new_actions fresh_world w')
            = [SendKeymap keyboard_resource WL_KEYBOARD_KEYMAP_FORMAT_XKB_V1 3 1024]
        \<and> open_fds w' = {0, 1, 2, 3})
   \<and> (\<exists>w'. createInterfae QT_NO_DEBUG memory_and_descriptor 1 seat_resource 7
               (unbound_keyboard\<lparr>seat := plain_seat\<rparr>) fresh_world
             = Inr (unbound_keyboard\<lparr>seat := plain_seat, resource := Some keyboard_resource\<rparr>, w')
        \<and> new_actions fresh_world w'
            = [WlResourceCreate 1 4 7, WlResourceSetImplementation keyboard_resource,
               SysOpen 5,
               SendKeymap keyboard_resource WL_KEYBOARD_KEYMAP_FORMAT_NO_KEYMAP 5 0,
               SysClose 5]
        \<and> open_fds w' = {0, 1, 2, 3})"
proof -
  have h: "allocation_succeeds memory_and_descriptor"
    by (simp add: examples)
  obtain w1 where
    "createInterfae QT_NO_DEBUG memory_and_descriptor 1 seat_resource 7 unbound_keyboard fresh_world
       = Inr (unbound_keyboard\<lparr>resource := Some keyboard_resource\<rparr>, w1)" and
    "filter is_keymap (new_actions fresh_world w1)
       = [SendKeymap keyboard_resource WL_KEYBOARD_KEYMAP_FORMAT_XKB_V1 3 1024]" and
    "open_fds w1 = {0, 1, 2, 3}"
    using create_sends_one_keymap [OF h, of QT_NO_DEBUG 1 seat_resource 7 unbound_keyboard fresh_world]
    by (auto simp: examples)
  moreover obtain w2 where
    "createInterfae QT_NO_DEBUG memory_and_descriptor 1 seat_resource 7
         (unbound_keyboard\<lparr>seat := plain_seat\<rparr>) fresh_world
       = Inr (unbound_keyboard\<lparr>seat := plain_seat, resource := Some keyboard_resource\<rparr>, w2)" and
    "new_actions fresh_world w2
       = [WlResourceCreate 1 4 7, WlResourceSetImplementation keyboard_resource,
          SysOpen 5,
          SendKeymap keyboard_resource WL_KEYBOARD_KEYMAP_FORMAT_NO_KEYMAP 5 0,
          SysClose 5]" and
    "open_fds w2 = {0, 1, 2, 3}"
    using create_sends_one_keymap [OF h, of QT_NO_DEBUG 1 seat_resource 7
        "unbound_keyboard\<lparr>seat := plain_seat\<rparr>" fresh_world]
    by (auto simp: examples)
  ultimately show ?thesis using h by blast
qed

text \<open>
  C5. A creation whose allocation fails posts the out-of-memory notification on the
  parent object and returns: the binding is unchanged, its handle stays null, no wire
  object was added and no keymap event was sent.
\<close>

theorem create_out_of_memory:
  assumes "\<not> allocation_succeeds os" and "resource d = None"
  shows "\<exists>w'. createInterfae b os client parentResource id' d w = Inr (d, w')
           \<and> resource d = None
           \<and> new_actions w w'
               = [WlResourceCreate client (wl_resource_get_version parentResource) id',
                  WlResourcePostNoMemory parentResource]
           \<and> filter is_keymap (new_actions w w') = []
           \<and> objects w' = objects w"
  using assms
  by (simp add: createInterfae_def prims new_actions_def)

theorem create_out_of_memory_witness:
  "\<not> allocation_succeeds out_of_memory \<and> resource unbound_keyboard = None
   \<and> (\<exists>w'. createInterfae QT_NO_DEBUG out_of_memory 1 seat_resource 7 unbound_keyboard fresh_world
             = Inr (unbound_keyboard, w')
        \<and> new_actions fresh_world w'
            = [WlResourceCreate 1 4 7, WlResourcePostNoMemory seat_resource]
        \<and> filter is_keymap (new_actions fresh_world w') = []
        \<and> objects w' = {seat_resource})"
proof -
  have h: "\<not> allocation_succeeds out_of_memory" "resource unbound_keyboard = None"
    by (simp_all add: examples)
  have v: "wl_resource_get_version seat_resource = 4" "objects fresh_world = {seat_resource}"
    by (simp_all add: examples)
  show ?thesis
    using create_out_of_memory [OF h, of QT_NO_DEBUG 1 seat_resource 7 fresh_world] h
    by (simp add: v)
qed

text \<open>
  C6, as the code has it. In a build with assertions, \<^verbatim>\<open>keyPressed\<close>,
  \<^verbatim>\<open>keyReleased\<close> and \<^verbatim>\<open>updateModifiers\<close> called without a focused
  surface fail their assertion, and the world at the abort is the world of the call: no
  key or modifiers event was sent.
\<close>

theorem key_events_need_focus:
  assumes "focusedSurface d = None"
  shows "keyPressed QT_DEBUG key serial d w = Inl (AssertionFailed, w)
         \<and> keyReleased QT_DEBUG key serial d w = Inl (AssertionFailed, w)
         \<and> updateModifiers QT_DEBUG depressed latched locked group' serial d w
             = Inl (AssertionFailed, w)"
  using assms
  by (simp add: keyPressed_def keyReleased_def updateModifiers_def Q_ASSERT_fails_def)

theorem key_events_need_focus_witness:
  "focusedSurface bound_keyboard = None
   \<and> keyPressed QT_DEBUG 30 12 bound_keyboard bound_world = Inl (AssertionFailed, bound_world)
   \<and> keyReleased QT_DEBUG 30 13 bound_keyboard bound_world = Inl (AssertionFailed, bound_world)
   \<and> updateModifiers QT_DEBUG 1 0 0 0 14 bound_keyboard bound_world
       = Inl (AssertionFailed, bound_world)"
proof -
  have h: "focusedSurface bound_keyboard = None"
    by (simp add: examples)
  show ?thesis
    using key_events_need_focus [OF h, of 30 12 bound_world 1 0 0 0]
      key_events_need_focus [OF h, of 30 13 bound_world 1 0 0 0]
      key_events_need_focus [OF h, of 30 14 bound_world 1 0 0 0] h
    by simp
qed

text \<open>
  C6 as stated (for every call) fails: the only check is \<^verbatim>\<open>Q_ASSERT\<close>, and in a
  build with \<^verbatim>\<open>QT_NO_DEBUG\<close> the three calls on the bound keyboard without a
  focused surface return and have sent their key or modifiers event.
\<close>

theorem key_events_without_focus_counterexample:
  "focusedSurface bound_keyboard = None
   \<and> keyPressed QT_NO_DEBUG 30 12 bound_keyboard bound_world
       = Inr (bound_world\<lparr>trace := trace bound_world
                @ [SendKey keyboard_resource 12 500 30 WL_KEYBOARD_KEY_STATE_PRESSED]\<rparr>)
   \<and> keyReleased QT_NO_DEBUG 30 13 bound_keyboard bound_world
       = Inr (bound_world\<lparr>trace := trace bound_world
                @ [SendKey keyboard_resource 13 500 30 WL_KEYBOARD_KEY_STATE_RELEASED]\<rparr>)
   \<and> updateModifiers QT_NO_DEBUG 1 0 0 0 14 bound_keyboard bound_world
       = Inr (bound_world\<lparr>trace := trace bound_world
                @ [SendModifiers keyboard_resource 14 1 0 0 0]\<rparr>)"
  by (simp add: keyPressed_def keyReleased_def updateModifiers_def sendModifiers_values_def
      prims examples)

text \<open>
  C7. After a surface has been focused on a bound keyboard, its destruction by its owner
  clears the focus, so that \<^verbatim>\<open>focusedSurface()\<close> is null, and sends nothing;
  nor does the next \<^verbatim>\<open>setFocusedSurface\<close> call send a leave event.
\<close>

theorem destroyed_surface_is_silent:
  assumes "resource d = Some h"
  shows "\<exists>d1 w1. setFocusedSurface b (Some s) serial d w = Inr (d1, w1)
           \<and> focusedSurface d1 = Some s
           \<and> focusedSurface (fst (surface_destroyed s d1 w1)) = None
           \<and> trace (snd (surface_destroyed s d1 w1)) = trace w1
           \<and> (\<exists>d3 w3. setFocusedSurface b surface' serial'
                          (fst (surface_destroyed s d1 w1)) (snd (surface_destroyed s d1 w1))
                        = Inr (d3, w3)
                 \<and> leaves (new_actions (snd (surface_destroyed s d1 w1)) w3) = [])"
proof -
  obtain d1 w1 where
    step: "setFocusedSurface b (Some s) serial d w = Inr (d1, w1)" and
    foc: "focusedSurface d1 = Some s" and
    res: "resource d1 = Some h" and
    con: "(next_connection w, s) \<in> set (connections w1)"
    using setFocusedSurface_bound [OF assms, of b "Some s" serial w] assms by auto
  let ?d2 = "d1\<lparr>focusedSurface := None\<rparr>"
  let ?w2 = "w1\<lparr>connections := filter (\<lambda>p. snd p \<noteq> s) (connections w1)\<rparr>"
  have gone: "surface_destroyed s d1 w1 = (?d2, ?w2)"
    using con by (rule surface_destroyed_subscribed)
  have res2: "resource ?d2 = Some h" using res by simp
  obtain d3 w3 where
    next': "setFocusedSurface b surface' serial' ?d2 ?w2 = Inr (d3, w3)" and
    tr3: "trace w3 = trace ?w2
            @ (case surface' of None \<Rightarrow> []
                | Some s' \<Rightarrow> [QtConnect (next_connection ?w2) s',
                     SendEnter h serial' (surface_resource s') (pressedKeys (seat ?d2)),
                     SendModifiers h (lastModifiersSerial (seat ?d2)) (depressedModifiers (seat ?d2))
                       (latchedModifiers (seat ?d2)) (lockedModifiers (seat ?d2))
                       (groupModifiers (seat ?d2))])"
    using setFocusedSurface_bound [OF res2, of b surface' serial' ?w2] by auto
  have "leaves (new_actions ?w2 w3) = []"
    unfolding new_actions_append [OF tr3] by (cases surface') simp_all
  then show ?thesis
    using step foc next' by (simp add: gone)
qed

theorem destroyed_surface_is_silent_witness:
  "resource bound_keyboard = Some keyboard_resource
   \<and> setFocusedSurface QT_NO_DEBUG (Some surface_A) 10 bound_keyboard bound_world
       = Inr (focused_keyboard, focused_world)
   \<and> focusedSurface (fst (surface_destroyed surface_A focused_keyboard focused_world)) = None
   \<and> trace (snd (surface_destroyed surface_A focused_keyboard focused_world))
       = trace focused_world
   \<and> (\<exists>d3 w3. setFocusedSurface QT_NO_DEBUG (Some surface_B) 11
                  (fst (surface_destroyed surface_A focused_keyboard focused_world))
                  (snd (surface_destroyed surface_A focused_keyboard focused_world))
                = Inr (d3, w3)
         \<and> leaves (new_actions (snd (surface_destroyed surface_A focused_keyboard focused_world))
              w3) = [])"
proof -
  have h: "resource bound_keyboard = Some keyboard_resource"
    by (simp add: examples)
  show ?thesis
    using destroyed_surface_is_silent [OF h, of QT_NO_DEBUG surface_A 10 bound_world "Some surface_B" 11] h
    by (simp add: reach_focused)
qed

text \<open>
  C8. On a keyboard without a focused surface, \<^verbatim>\<open>setFocusedSurface(null, serial)\<close>
  returns with the binding and the world as they were: nothing is sent.
\<close>

theorem clearing_unfocused_is_noop:
  assumes "focusedSurface d = None"
  shows "setFocusedSurface b None serial d w = Inr (d, w)"
  using assms by (simp add: setFocusedSurface_def)

theorem clearing_unfocused_is_noop_witness:
  "focusedSurface bound_keyboard = None
   \<and> setFocusedSurface QT_NO_DEBUG None 15 bound_keyboard bound_world = Inr (bound_keyboard, bound_world)
   \<and> setFocusedSurface QT_NO_DEBUG None 15 unbound_keyboard fresh_world = Inr (unbound_keyboard, fresh_world)"
proof -
  have h: "focusedSurface bound_keyboard = None" "focusedSurface unbound_keyboard = None"
    by (simp_all add: examples)
  show ?thesis
    using clearing_unfocused_is_noop [OF h(1), of QT_NO_DEBUG 15 bound_world]
      clearing_unfocused_is_noop [OF h(2), of QT_NO_DEBUG 15 fresh_world] h
    by simp
qed




text \<open>
  C10. The handler of the release request is \<^verbatim>\<open>unbind\<close>: both null the stored
  handle and touch nothing else. The release does not destroy the wire object, which
  still exists afterwards; and after either of them the destructor skips its destroy:
  it calls nothing, and the wire object outlives the binding.
\<close>

theorem release_is_unbind:
  assumes "resource d = Some r" and "r \<in> objects w"
  shows "releaseCallback client r d w = unbind r d w
         \<and> unbind r d w = (d\<lparr>resource := None\<rparr>, w)
         \<and> transport_release client r d w = Some (d\<lparr>resource := None\<rparr>, w)
         \<and> r \<in> objects (snd (releaseCallback client r d w))
         \<and> filter (is_destroy_of r) (new_actions w (snd (releaseCallback client r d w))) = []
         \<and> new_actions w
              (KeyboardInterface_destructor (fst (releaseCallback client r d w))
                 (snd (releaseCallback client r d w))) = []
         \<and> new_actions w
              (KeyboardInterface_destructor (fst (unbind r d w)) (snd (unbind r d w))) = []
         \<and> KeyboardInterface_destructor_body (fst (releaseCallback client r d w))
              (snd (releaseCallback client r d w))
             = (d\<lparr>resource := None\<rparr>, w)
         \<and> r \<in> objects
              (KeyboardInterface_destructor (fst (releaseCallback client r d w))
                 (snd (releaseCallback client r d w)))"
  using assms
  by (simp add: releaseCallback_def unbind_def transport_release_def
      KeyboardInterface_destructor_def KeyboardInterface_destructor_body_def
      qobject_deleted_def new_actions_def)

theorem release_is_unbind_witness:
  "resource focused_keyboard = Some keyboard_resource
   \<and> keyboard_resource \<in> objects focused_world
   \<and> releaseCallback 1 keyboard_resource focused_keyboard focused_world
       = unbind keyboard_resource focused_keyboard focused_world
   \<and> unbind keyboard_resource focused_keyboard focused_world
       = (focused_keyboard\<lparr>resource := None\<rparr>, focused_world)
   \<and> keyboard_resource
       \<in> objects (snd (releaseCallback 1 keyboard_resource focused_keyboard focused_world))
   \<and> new_actions focused_world
        (KeyboardInterface_destructor
           (fst (releaseCallback 1 keyboard_resource focused_keyboard focused_world))
           (snd (releaseCallback 1 keyboard_resource focused_keyboard focused_world))) = []"
proof -
  have h: "resource focused_keyboard = Some keyboard_resource"
    "keyboard_resource \<in> objects focused_world"
    by (simp_all add: examples)
  show ?thesis
    using release_is_unbind [OF h, of 1] h by blast
qed

end
